theory Spec2Isabelle
  imports Main
begin

section \<open>The rendered page\<close>

text \<open>
  The controller of \<^verbatim>\<open>main.js\<close> works on the page's element tree. An element has a tag,
  an optional id, its class list (the tokens of \<^verbatim>\<open>className\<close>, in order), its other
  attributes and its children; a text node is a leaf. Strings are bytes, a character
  outside ASCII being its UTF-8 encoding. Whitespace-only text nodes and comments of the
  templates are left out: no operation of the controller observes them.
\<close>

datatype node =
    Text string
  | Elem string "string option" "string list" "(string \<times> string) list" "node list"



fun children :: "node \<Rightarrow> node list" where
  "children (Text s) = []"
| "children (Elem t i cs as ks) = ks"

text \<open>An element without id and further attributes, as the templates mostly create.\<close>

definition el :: "string \<Rightarrow> string list \<Rightarrow> node list \<Rightarrow> node" where
  "el t cs ks = Elem t None cs [] ks"

text \<open>\<^verbatim>\<open>classList.add\<close>, \<^verbatim>\<open>classList.remove\<close> and \<^verbatim>\<open>classList.contains\<close> on a token list.\<close>

definition class_add :: "string \<Rightarrow> string list \<Rightarrow> string list" where
  "class_add c cs = (if c \<in> set cs then cs else cs @ [c])"

definition class_remove :: "string \<Rightarrow> string list \<Rightarrow> string list" where
  "class_remove c cs = filter (\<lambda>x. x \<noteq> c) cs"

fun has_class :: "string \<Rightarrow> node \<Rightarrow> bool" where
  "has_class c (Text s) = False"
| "has_class c (Elem t i cs as ks) = (c \<in> set cs)"

fun has_id :: "string \<Rightarrow> node \<Rightarrow> bool" where
  "has_id x (Text s) = False"
| "has_id x (Elem t i cs as ks) = (i = Some x)"

text \<open>
  A reference to an element below a container is the path of child indices that leads
  to it. \<open>find_first P ns\<close> is the first element, in document order (an element before
  its descendants, these before its later siblings), among the nodes \<open>ns\<close> and their
  descendants that satisfies \<open>P\<close>: what \<^verbatim>\<open>querySelector\<close> and \<^verbatim>\<open>getElementById\<close>
  return, \<open>None\<close> standing for \<^verbatim>\<open>null\<close>.
\<close>

fun shift :: "nat list \<Rightarrow> nat list" where
  "shift [] = []"
| "shift (i # p) = Suc i # p"

fun find_first :: "(node \<Rightarrow> bool) \<Rightarrow> node list \<Rightarrow> nat list option" where
  "find_first P [] = None"
| "find_first P (Text s # ns) = map_option shift (find_first P ns)"
| "find_first P (Elem t i cs as ks # ns) =
     (if P (Elem t i cs as ks) then Some [0]
      else case find_first P ks of
             Some p \<Rightarrow> Some (0 # p)
           | None \<Rightarrow> map_option shift (find_first P ns))"

definition querySelector :: "string \<Rightarrow> node list \<Rightarrow> nat list option" where
  "querySelector c ns = find_first (has_class c) ns"

definition getElementById :: "string \<Rightarrow> node list \<Rightarrow> nat list option" where
  "getElementById x ns = find_first (has_id x) ns"

fun map_children :: "(node list \<Rightarrow> node list) \<Rightarrow> node \<Rightarrow> node" where
  "map_children f (Text s) = Text s"
| "map_children f (Elem t i cs as ks) = Elem t i cs as (f ks)"

fun map_classes :: "(string list \<Rightarrow> string list) \<Rightarrow> node \<Rightarrow> node" where
  "map_classes f (Text s) = Text s"
| "map_classes f (Elem t i cs as ks) = Elem t i (f cs) as ks"

text \<open>The element at a path, changed by \<open>f\<close>; a path that leads nowhere changes nothing.\<close>

fun update_at :: "nat list \<Rightarrow> (node \<Rightarrow> node) \<Rightarrow> node list \<Rightarrow> node list" where
  "update_at [] f ns = ns"
| "update_at [i] f ns = (if i < length ns then ns[i := f (ns ! i)] else ns)"
| "update_at (i # j # p) f ns =
     (if i < length ns then ns[i := map_children (update_at (j # p) f) (ns ! i)] else ns)"

text \<open>\<^verbatim>\<open>element.remove()\<close>: the element at a path leaves its parent's children.\<close>

fun remove_at :: "nat list \<Rightarrow> node list \<Rightarrow> node list" where
  "remove_at [] ns = ns"
| "remove_at [i] ns = take i ns @ drop (Suc i) ns"
| "remove_at (i # j # p) ns =
     (if i < length ns then ns[i := map_children (remove_at (j # p)) (ns ! i)] else ns)"

text \<open>Assigning \<^verbatim>\<open>innerHTML\<close> replaces the children by the parsed markup.\<close>

definition set_innerHTML :: "nat list \<Rightarrow> node list \<Rightarrow> node list \<Rightarrow> node list" where
  "set_innerHTML p html ns = update_at p (map_children (\<lambda>_. html)) ns"

definition add_class_at :: "nat list \<Rightarrow> string \<Rightarrow> node list \<Rightarrow> node list" where
  "add_class_at p c ns = update_at p (map_classes (class_add c)) ns"

section \<open>Result entries and their two layouts\<close>

text \<open>
  An entry of the \<^verbatim>\<open>results\<close> array. The templates of \<^verbatim>\<open>updateResult\<close> interpolate its
  fields unescaped into markup that is assigned to \<^verbatim>\<open>innerHTML\<close>, so the parser of the
  browser, which is no part of the sources, decides what a field becomes. The entry is
  taken with its fields parsed:
  \<^item> \<^verbatim>\<open>link\<close>, \<^verbatim>\<open>strategy\<close>, \<^verbatim>\<open>backtest\<close> and \<^verbatim>\<open>error\<close> stand in element content. Such a field
    is the list of nodes that the parser makes of it there: one text node for plain text
    (\<^verbatim>\<open>undefined\<close> for a field the wire object lacks), no node for the empty string,
    elements, with their ids and classes, where the field holds tags. The markup of a
    field is taken to be balanced, so that its nodes stay inside the element it is
    interpolated into.
  \<^item> \<^verbatim>\<open>strategy_file\<close> and \<^verbatim>\<open>backtest_file\<close> stand inside an attribute value. Such a field
    is its text, taken to hold no double quote, so that it stays inside that value.
  \<^item> \<^verbatim>\<open>strategy_number\<close> is the text of a number; it goes into the id and the headings.
  \<^item> \<^verbatim>\<open>status\<close> is only compared.
\<close>

record result =
  strategy_number :: string
  status :: string
  link :: "node list"
  strategy :: "node list"
  backtest :: "node list"
  strategy_file :: string
  backtest_file :: string
  error :: "node list"

text \<open>
  Text that a template puts in front of an interpolated field runs into the text the
  field begins with: the parser yields one text node for both.
\<close>

fun join_text :: "node list \<Rightarrow> node list" where
  "join_text (Text a # Text b # ns) = join_text (Text (a @ b) # ns)"
| "join_text (n # ns) = n # join_text ns"
| "join_text [] = []"

definition emoji_chart :: string where
  "emoji_chart = [CHR 0xF0, CHR 0x9F, CHR 0x93, CHR 0x8A]"

definition emoji_target :: string where
  "emoji_target = [CHR 0xF0, CHR 0x9F, CHR 0x8E, CHR 0xAF]"

definition emoji_uptrend :: string where
  "emoji_uptrend = [CHR 0xF0, CHR 0x9F, CHR 0x93, CHR 0x88]"

definition emoji_cross :: string where
  "emoji_cross = [CHR 0xE2, CHR 0x9D, CHR 0x8C]"

definition code_block :: "node list \<Rightarrow> node" where
  "code_block src =
     el ''div'' [''code-block'']
       [el ''pre'' [] [el ''code'' [] src],
        Elem ''button'' None [''copy-button''] [(''onclick'', ''copyToClipboard(this)'')]
          [el ''i'' [''fas'', ''fa-copy''] []]]"

definition download_link :: "string \<Rightarrow> string \<Rightarrow> node" where
  "download_link href label =
     Elem ''a'' None
       [''inline-flex'', ''items-center'', ''space-x-2'', ''text-purple-400'',
        ''hover:text-purple-300'']
       [(''href'', href)]
       [el ''i'' [''fas'', ''fa-download''] [], el ''span'' [] [Text label]]"

definition success_layout :: "result \<Rightarrow> node list" where
  "success_layout r =
     [el ''div'' [''mb-4'']
        [el ''h3'' [''text-xl'', ''font-bold'', ''mb-2'']
           [Text (emoji_chart @ '' Strategy '' @ strategy_number r)],
         el ''p'' [''text-gray-400'', ''mb-2''] (join_text (Text ''Source: '' # link r))],
      el ''div'' [''mb-6'']
        [el ''h4'' [''text-lg'', ''font-semibold'', ''mb-2'']
           [Text (emoji_target @ '' Strategy Analysis'')],
         code_block (strategy r)],
      el ''div'' [''mb-6'']
        [el ''h4'' [''text-lg'', ''font-semibold'', ''mb-2'']
           [Text (emoji_uptrend @ '' Backtest Implementation'')],
         code_block (backtest r)],
      el ''div'' [''mt-4'', ''flex'', ''space-x-4'']
        [download_link (''/download/strategy/'' @ strategy_file r) ''Download Strategy'',
         download_link (''/download/backtest/'' @ backtest_file r) ''Download Backtest'']]"

definition error_layout :: "result \<Rightarrow> node list" where
  "error_layout r =
     [el ''div'' [''text-red-500'']
        [el ''h3'' [''text-xl'', ''font-bold'', ''mb-2'']
           [Text (emoji_cross @ '' Error Processing Strategy '' @ strategy_number r)],
         el ''p'' [] (error r)]]"

definition resultId :: "result \<Rightarrow> string" where
  "resultId r = ''strategy-'' @ strategy_number r"

definition new_result_element :: "string \<Rightarrow> node" where
  "new_result_element x =
     Elem ''div'' (Some x) [''bg-gray-800'', ''rounded-lg'', ''p-6'', ''success-animation''] [] []"

text \<open>
  \<^verbatim>\<open>updateResult(result)\<close> on the children of \<^verbatim>\<open>resultsContent\<close>: the element with the
  entry's id is looked up and, when absent, created and appended; then its content is
  replaced by the layout of the entry's status, the error branch adding the class
  \<^verbatim>\<open>error-animation\<close>. The ids of result elements are taken to occur nowhere else in
  the document, so the lookup is one below \<^verbatim>\<open>resultsContent\<close>.
\<close>

definition updateResult :: "result \<Rightarrow> node list \<Rightarrow> node list" where
  "updateResult r rc =
     (let (rc1, p) =
            (case getElementById (resultId r) rc of
               None \<Rightarrow> (rc @ [new_result_element (resultId r)], [length rc])
             | Some p \<Rightarrow> (rc, p))
      in if status r = ''success''
         then set_innerHTML p (success_layout r) rc1
         else add_class_at p ''error-animation'' (set_innerHTML p (error_layout r) rc1))"

text \<open>\<^verbatim>\<open>data.results.forEach(result => updateResult(result))\<close>.\<close>

definition updateResults :: "result list \<Rightarrow> node list \<Rightarrow> node list" where
  "updateResults rs rc = foldl (\<lambda>c r. updateResult r c) rc rs"

section \<open>The phase timeline\<close>

text \<open>
  The page's markup is not among the sources. It is taken to provide the three phase
  elements (\<^verbatim>\<open>researchPhase\<close>, \<^verbatim>\<open>backtestPhase\<close>, \<^verbatim>\<open>debugPhase\<close>), each holding one
  \<^verbatim>\<open>.progress-messages\<close> container, besides \<^verbatim>\<open>resultsContent\<close> and \<^verbatim>\<open>spinner\<close>. A phase
  element is its class list and the children of its message container.
\<close>

datatype phase = Research | Backtest | Debug

record phase_element =
  phase_classes :: "string list"
  progress_messages :: "node list"

text \<open>The three phase elements of the page, and access to them by phase.\<close>

record phase_store =
  researchPhase :: phase_element
  backtestPhase :: phase_element
  debugPhase :: phase_element

fun get_phase :: "phase \<Rightarrow> phase_store \<Rightarrow> phase_element" where
  "get_phase Research ps = researchPhase ps"
| "get_phase Backtest ps = backtestPhase ps"
| "get_phase Debug ps = debugPhase ps"

fun set_phase :: "phase \<Rightarrow> phase_element \<Rightarrow> phase_store \<Rightarrow> phase_store" where
  "set_phase Research e ps = ps\<lparr>researchPhase := e\<rparr>"
| "set_phase Backtest e ps = ps\<lparr>backtestPhase := e\<rparr>"
| "set_phase Debug e ps = ps\<lparr>debugPhase := e\<rparr>"

definition map_phases :: "(phase_element \<Rightarrow> phase_element) \<Rightarrow> phase_store \<Rightarrow> phase_store" where
  "map_phases f ps =
     \<lparr>researchPhase = f (researchPhase ps), backtestPhase = f (backtestPhase ps),
      debugPhase = f (debugPhase ps)\<rparr>"

definition emoji_books :: string where
  "emoji_books = [CHR 0xF0, CHR 0x9F, CHR 0x93, CHR 0x9A]"

definition emoji_abacus :: string where
  "emoji_abacus = [CHR 0xF0, CHR 0x9F, CHR 0xA7, CHR 0xAE]"

definition emoji_magnifier :: string where
  "emoji_magnifier = [CHR 0xF0, CHR 0x9F, CHR 0x94, CHR 0x8D]"

definition emoji_gear :: string where
  "emoji_gear = [CHR 0xE2, CHR 0x9A, CHR 0x99, CHR 0xEF, CHR 0xB8, CHR 0x8F]"

definition emoji_bulb :: string where
  "emoji_bulb = [CHR 0xF0, CHR 0x9F, CHR 0x92, CHR 0xA1]"

definition emoji_wrench :: string where
  "emoji_wrench = [CHR 0xF0, CHR 0x9F, CHR 0x94, CHR 0xA7]"

definition emoji_slider :: string where
  "emoji_slider = [CHR 0xF0, CHR 0x9F, CHR 0x8E, CHR 0x9A, CHR 0xEF, CHR 0xB8, CHR 0x8F]"

definition emoji_bug :: string where
  "emoji_bug = [CHR 0xF0, CHR 0x9F, CHR 0x90, CHR 0x9B]"

definition emoji_sparkles :: string where
  "emoji_sparkles = [CHR 0xE2, CHR 0x9C, CHR 0xA8]"

definition emoji_test_tube :: string where
  "emoji_test_tube = [CHR 0xF0, CHR 0x9F, CHR 0xA7, CHR 0xAA]"

definition emoji_arrow :: string where
  "emoji_arrow = [CHR 0xE2, CHR 0x86, CHR 0x92]"

definition emoji_cycle :: string where
  "emoji_cycle = [CHR 0xF0, CHR 0x9F, CHR 0x94, CHR 0x84]"

definition researchMessages :: "string list" where
  "researchMessages =
     [emoji_books @ '' Reading through strategy documentation...'',
      emoji_abacus @ '' Analyzing mathematical patterns...'',
      emoji_magnifier @ '' Identifying key trading signals...'',
      emoji_chart @ '' Processing historical data...'',
      emoji_target @ '' Defining entry and exit rules...'']"

definition backtestMessages :: "string list" where
  "backtestMessages =
     [emoji_gear @ '' Setting up backtesting environment...'',
      emoji_uptrend @ '' Implementing trading logic...'',
      emoji_bulb @ '' Adding risk management rules...'',
      emoji_wrench @ '' Configuring position sizing...'',
      emoji_slider @ '' Fine-tuning parameters...'']"

definition debugMessages :: "string list" where
  "debugMessages =
     [emoji_bug @ '' Hunting for bugs...'',
      emoji_sparkles @ '' Optimizing code performance...'',
      emoji_magnifier @ '' Reviewing edge cases...'',
      emoji_test_tube @ '' Running test scenarios...'',
      emoji_target @ '' Finalizing implementation...'']"

text \<open>
  \<^verbatim>\<open>updatePhase(phaseElement, status)\<close>: every \<^verbatim>\<open>.processing-phase\<close> element loses the
  class \<^verbatim>\<open>active\<close>, then the given element gets it, whatever the status, and with it
  \<^verbatim>\<open>phase-complete\<close> or \<^verbatim>\<open>phase-error\<close> for these two statuses.
\<close>

definition updatePhase :: "phase \<Rightarrow> string \<Rightarrow> phase_store \<Rightarrow> phase_store" where
  "updatePhase p st ps =
     (let ps1 = map_phases
                  (\<lambda>e. if ''processing-phase'' \<in> set (phase_classes e)
                       then e\<lparr>phase_classes := class_remove ''active'' (phase_classes e)\<rparr>
                       else e) ps;
          cs1 = class_add ''active'' (phase_classes (get_phase p ps1));
          cs2 = (if st = ''complete'' then class_add ''phase-complete'' cs1
                 else if st = ''error'' then class_add ''phase-error'' cs1
                 else cs1)
      in set_phase p ((get_phase p ps1)\<lparr>phase_classes := cs2\<rparr>) ps1)"

definition progress_message :: "string \<Rightarrow> node" where
  "progress_message m =
     el ''div'' [''progress-message'', ''text-sm'', ''text-purple-300'', ''message-animation'']
       [el ''span'' [''inline-block'', ''mr-2''] [Text emoji_arrow], Text m]"

text \<open>
  \<^verbatim>\<open>processPhase\<close> suspends before every message, so a run of the timeline is a sequence
  of steps, each executed without interruption. Other tasks of the page can run where
  the run is suspended, that is before each appended message. The steps address the live phase elements of the page. The reset of every
  \<^verbatim>\<open>.progress-messages\<close> container, which the submit listener performs before the first
  phase, is a step as well.
\<close>

datatype step =
    MarkActive phase
  | ClearMessages phase
  | AppendMessage phase string
  | MarkComplete phase
  | ResetContainers

definition step_exec :: "step \<Rightarrow> phase_store \<Rightarrow> phase_store" where
  "step_exec a ps =
     (case a of
        MarkActive p \<Rightarrow> updatePhase p ''active'' ps
      | ClearMessages p \<Rightarrow> set_phase p ((get_phase p ps)\<lparr>progress_messages := []\<rparr>) ps
      | AppendMessage p m \<Rightarrow>
          set_phase p
            ((get_phase p ps)\<lparr>progress_messages :=
               progress_messages (get_phase p ps) @ [progress_message m]\<rparr>) ps
      | MarkComplete p \<Rightarrow> updatePhase p ''complete'' ps
      | ResetContainers \<Rightarrow> map_phases (\<lambda>e. e\<lparr>progress_messages := []\<rparr>) ps)"

definition steps_exec :: "step list \<Rightarrow> phase_store \<Rightarrow> phase_store" where
  "steps_exec as ps = foldl (\<lambda>s a. step_exec a s) ps as"

definition processPhase :: "phase \<Rightarrow> string list \<Rightarrow> step list" where
  "processPhase p messages =
     [MarkActive p, ClearMessages p] @ map (AppendMessage p) messages @ [MarkComplete p]"

text \<open>The three awaited calls of the submit listener, in the order it makes them.\<close>

definition timeline :: "step list" where
  "timeline =
     processPhase Research researchMessages @
     processPhase Backtest backtestMessages @
     processPhase Debug debugMessages"

section \<open>The polling controller\<close>

text \<open>
  The state of the listener's closure and of the page it renders to. \<open>timers\<close> is the
  set of interval handles that are still scheduled; \<^verbatim>\<open>setInterval\<close> returns a fresh
  positive handle, and \<^verbatim>\<open>pollInterval\<close> is \<open>None\<close> until the first one is stored.
\<close>

record page =
  resultsContent :: "node list"
  spinner :: "string list"
  pollInterval :: "nat option"
  retryCount :: nat
  timers :: "nat set"
  last_handle :: nat
  phases :: phase_store

definition MAX_RETRIES :: nat where
  "MAX_RETRIES = 10"

text \<open>Clearing a handle that is not scheduled, or \<^verbatim>\<open>undefined\<close>, does nothing.\<close>

definition clearInterval :: "nat option \<Rightarrow> nat set \<Rightarrow> nat set" where
  "clearInterval h ts = (case h of None \<Rightarrow> ts | Some i \<Rightarrow> ts - {i})"

text \<open>The decimal digits of a number, as the template literal writes it.\<close>

fun string_of_nat :: "nat \<Rightarrow> string" where
  "string_of_nat n =
     (if n < 10 then [''0123456789'' ! n]
      else string_of_nat (n div 10) @ [''0123456789'' ! (n mod 10)])"

declare string_of_nat.simps [simp del]

definition status_classes :: "string list" where
  "status_classes = [''text-purple-400'', ''mt-4'', ''text-center'']"

definition showError :: "string \<Rightarrow> page \<Rightarrow> page" where
  "showError message s =
     s\<lparr>spinner := class_add ''hidden'' (spinner s),
       resultsContent :=
         [el ''div''
            [''p-4'', ''bg-red-100'', ''border'', ''border-red-400'', ''text-red-700'', ''rounded'']
            [Text (emoji_cross @ '' '' @ message)]]\<rparr>"

definition exhausted_message :: string where
  "exhausted_message =
     ''Strategy processing is still running in the background. '' @
     ''Your results will be saved! Please check back in a few minutes.''"

text \<open>
  \<^verbatim>\<open>handlePollingError(message)\<close>: the counter goes up, the attempt is written into the
  first \<^verbatim>\<open>.text-purple-400\<close> element below \<^verbatim>\<open>resultsContent\<close> or, when there is none,
  into a new status element appended to it; from \<open>MAX_RETRIES\<close> on, the interval is
  cleared, the spinner hidden and the notice rendered.
\<close>

definition handlePollingError :: "string \<Rightarrow> page \<Rightarrow> page" where
  "handlePollingError message s =
     (let n = retryCount s + 1;
          html = [Text (message @ '' (Attempt '' @ string_of_nat n @ ''/'' @
                        string_of_nat MAX_RETRIES @ '')'')];
          rc = (case querySelector ''text-purple-400'' (resultsContent s) of
                  Some p \<Rightarrow> set_innerHTML p html (resultsContent s)
                | None \<Rightarrow> resultsContent s @ [el ''div'' status_classes html]);
          s1 = s\<lparr>retryCount := n, resultsContent := rc\<rparr>
      in if n \<ge> MAX_RETRIES
         then showError exhausted_message
                (s1\<lparr>timers := clearInterval (pollInterval s1) (timers s1),
                    spinner := class_add ''hidden'' (spinner s1)\<rparr>)
         else s1)"

text \<open>
  What a probe of \<^verbatim>\<open>/results\<close> yields: a parsed body with its \<^verbatim>\<open>status\<close>, its
  \<^verbatim>\<open>results\<close> (\<open>None\<close> when that is not an array) and the truth of \<^verbatim>\<open>is_complete\<close>, or
  an exception with its \<^verbatim>\<open>name\<close> (a timeout, an abort, a network failure, the error
  thrown for a response that is not ok, a body that is not JSON). The entries of the
  array are objects, so that rendering them throws nothing.
\<close>

datatype probe =
    Body string "result list option" bool
  | Thrown string

text \<open>
  One tick of the interval callback, from the arrival of the probe's outcome to the end
  of the callback; nothing else runs in between.
\<close>

definition tick :: "probe \<Rightarrow> page \<Rightarrow> page" where
  "tick pr s =
     (case pr of
        Body st res is_complete \<Rightarrow>
          (if st = ''success'' \<and> res \<noteq> None \<and> res \<noteq> Some []
           then
             (let s1 = s\<lparr>retryCount := 0\<rparr>;
                  rc1 = (case querySelector ''text-purple-400'' (resultsContent s1) of
                           Some p \<Rightarrow> remove_at p (resultsContent s1)
                         | None \<Rightarrow> resultsContent s1);
                  rc2 = updateResults (case res of Some rs \<Rightarrow> rs | None \<Rightarrow> []) rc1;
                  s2 = s1\<lparr>resultsContent := rc2\<rparr>
              in if is_complete
                 then s2\<lparr>timers := clearInterval (pollInterval s2) (timers s2),
                         spinner := class_add ''hidden'' (spinner s2)\<rparr>
                 else s2)
           else handlePollingError ''Still processing your strategy...'' s)
      | Thrown name \<Rightarrow>
          (if name = ''TimeoutError'' \<or> name = ''AbortError''
           then handlePollingError
                  ''Still working on your strategy... This may take a few minutes.'' s
           else handlePollingError ''Checking strategy progress...'' s))"

definition ticks :: "probe list \<Rightarrow> page \<Rightarrow> page" where
  "ticks prs s = foldl (\<lambda>t pr. tick pr t) s prs"

text \<open>
  \<^verbatim>\<open>startPolling()\<close>: a stored handle is cleared, and a new interval is scheduled and
  stored.
\<close>

definition startPolling :: "page \<Rightarrow> page" where
  "startPolling s =
     (let ts = (case pollInterval s of None \<Rightarrow> timers s | Some h \<Rightarrow> clearInterval (Some h) (timers s));
          h = Suc (last_handle s)
      in s\<lparr>timers := insert h ts, pollInterval := Some h, last_handle := h\<rparr>)"

text \<open>
  The submit listener. Its first part runs up to the request to \<^verbatim>\<open>/analyze\<close>; its second
  part from the arrival of the answer: the request fails, the response is not ok, the
  body is not JSON, or the body carries a \<^verbatim>\<open>status\<close>. The second part returns, with the
  page, the steps of the phase timeline that the listener goes on to run.
\<close>

datatype acknowledgment =
    Unreachable
  | Not_ok
  | Unparsable
  | Acknowledged string

definition submit_reset :: "page \<Rightarrow> page" where
  "submit_reset s =
     s\<lparr>resultsContent := [],
       spinner := class_remove ''hidden'' (spinner s),
       retryCount := 0\<rparr>"

definition processing_message :: string where
  "processing_message =
     emoji_cycle @ '' Processing your strategy... This may take a few minutes.''"

definition submit_answer :: "acknowledgment \<Rightarrow> page \<Rightarrow> page \<times> step list" where
  "submit_answer a s =
     (if a = Acknowledged ''success''
      then
        (let s1 = s\<lparr>resultsContent :=
                      resultsContent s @ [el ''div'' status_classes [Text processing_message]]\<rparr>;
             s2 = startPolling s1;
             s3 = s2\<lparr>phases := step_exec ResetContainers (phases s2)\<rparr>
         in (s3, timeline))
      else (handlePollingError ''Starting strategy processing...'' s, []))"

definition submit :: "acknowledgment \<Rightarrow> page \<Rightarrow> page \<times> step list" where
  "submit a s = submit_answer a (submit_reset s)"

text \<open>The page as loaded: nothing rendered, no interval, the phase elements as marked up.\<close>

definition fresh_phase :: phase_element where
  "fresh_phase = \<lparr>phase_classes = [''processing-phase''], progress_messages = []\<rparr>"

definition loaded_page :: page where
  "loaded_page =
     \<lparr>resultsContent = [], spinner = [''hidden''], pollInterval = None, retryCount = 0,
      timers = {}, last_handle = 0,
      phases = \<lparr>researchPhase = fresh_phase, backtestPhase = fresh_phase,
                debugPhase = fresh_phase\<rparr>\<rparr>"

section \<open>Observing a session\<close>

text \<open>
  The condition under which the callback takes its results branch: a body whose status
  is \<^verbatim>\<open>success\<close> and whose results are a non-empty array. Every other outcome, an empty
  answer or a thrown error, takes the retry path.
\<close>

definition success_with_results :: "probe \<Rightarrow> bool" where
  "success_with_results pr =
     (case pr of
        Body st res c \<Rightarrow> st = ''success'' \<and> res \<noteq> None \<and> res \<noteq> Some []
      | Thrown e \<Rightarrow> False)"

definition signals_completion :: "probe \<Rightarrow> bool" where
  "signals_completion pr = (case pr of Body st res c \<Rightarrow> c | Thrown e \<Rightarrow> False)"

text \<open>A session is running while the stored handle is still scheduled.\<close>

definition session_active :: "page \<Rightarrow> bool" where
  "session_active s = (case pollInterval s of None \<Rightarrow> False | Some h \<Rightarrow> h \<in> timers s)"


text \<open>The page after an acknowledged submission; the same with nine retries counted.\<close>

definition polling_page :: page where
  "polling_page = fst (submit (Acknowledged ''success'') loaded_page)"

definition ninth_retry_page :: page where
  "ninth_retry_page = polling_page\<lparr>retryCount := 9\<rparr>"

text \<open>
  A second submission on the polling page has reset the page, and a tick of the running
  session has timed out before the answer to the submission arrives.
\<close>

definition interleaved_page :: page where
  "interleaved_page = tick (Thrown ''TimeoutError'') (submit_reset polling_page)"

definition example_result :: result where
  "example_result =
     \<lparr>strategy_number = ''1'', status = ''success'', link = [Text ''https://example.org/v''],
      strategy = [Text ''buy low''], backtest = [Text ''run()''], strategy_file = ''s1.txt'',
      backtest_file = ''b1.py'', error = [Text ''undefined'']\<rparr>"

text \<open>The rendered content with every text blanked: its structure without its wording.\<close>

fun blank :: "node \<Rightarrow> node" where
  "blank (Text s) = Text []"
| "blank (Elem t i cs as ks) = Elem t i cs as (map blank ks)"

text \<open>What \<^verbatim>\<open>showError\<close> leaves in \<^verbatim>\<open>resultsContent\<close> when the retries are used up.\<close>

definition exhaustion_notice :: "node list" where
  "exhaustion_notice =
     [el ''div''
        [''p-4'', ''bg-red-100'', ''border'', ''border-red-400'', ''text-red-700'', ''rounded'']
        [Text (emoji_cross @ '' '' @ exhausted_message)]]"

definition results_probe :: probe where
  "results_probe = Body ''success'' (Some [example_result]) False"

definition other_result :: result where
  "other_result =
     example_result\<lparr>strategy_number := ''2'', strategy_file := ''s2.txt'',
       backtest_file := ''b2.py''\<rparr>"


section \<open>Observing the result store\<close>
















section \<open>Observing the phase elements\<close>

definition all_phases :: "phase list" where
  "all_phases = [Research, Backtest, Debug]"

definition is_active :: "phase_store \<Rightarrow> phase \<Rightarrow> bool" where
  "is_active ps p = (''active'' \<in> set (phase_classes (get_phase p ps)))"

definition is_complete :: "phase_store \<Rightarrow> phase \<Rightarrow> bool" where
  "is_complete ps p = (''phase-complete'' \<in> set (phase_classes (get_phase p ps)))"

definition active_phases :: "phase_store \<Rightarrow> phase list" where
  "active_phases ps = filter (is_active ps) all_phases"

definition marked_up :: "phase_store \<Rightarrow> bool" where
  "marked_up ps =
     list_all (\<lambda>p. ''processing-phase'' \<in> set (phase_classes (get_phase p ps))) all_phases"

fun activations :: "step list \<Rightarrow> phase list" where
  "activations [] = []"
| "activations (MarkActive p # as) = p # activations as"
| "activations (a # as) = activations as"

fun no_reactivation :: "step list \<Rightarrow> bool" where
  "no_reactivation [] = True"
| "no_reactivation (a # as) =
     ((case a of MarkComplete p \<Rightarrow> MarkActive p \<notin> set as | _ \<Rightarrow> True) \<and> no_reactivation as)"

definition run_steps :: "step list \<Rightarrow> page \<Rightarrow> page" where
  "run_steps as s = s\<lparr>phases := steps_exec as (phases s)\<rparr>"

section \<open>The retry counter and the end of a session\<close>

lemma hpe_retryCount: "retryCount (handlePollingError m s) = retryCount s + 1"
  by (simp add: handlePollingError_def showError_def Let_def)

lemma hpe_pollInterval: "pollInterval (handlePollingError m s) = pollInterval s"
  by (simp add: handlePollingError_def showError_def Let_def)

lemma hpe_timers:
  "timers (handlePollingError m s) =
     (if retryCount s + 1 \<ge> MAX_RETRIES then clearInterval (pollInterval s) (timers s)
      else timers s)"
  by (simp add: handlePollingError_def showError_def Let_def)

lemma hpe_spinner:
  "spinner (handlePollingError m s) =
     (if retryCount s + 1 \<ge> MAX_RETRIES then class_add ''hidden'' (spinner s) else spinner s)"
  by (simp add: handlePollingError_def showError_def Let_def class_add_def)

lemma hpe_phases: "phases (handlePollingError m s) = phases s"
  by (simp add: handlePollingError_def showError_def Let_def)

lemma hpe_last_handle: "last_handle (handlePollingError m s) = last_handle s"
  by (simp add: handlePollingError_def showError_def Let_def)

lemma tick_retryable: "\<not> success_with_results pr \<Longrightarrow> \<exists>m. tick pr s = handlePollingError m s"
  by (auto simp: tick_def success_with_results_def split: probe.splits)


lemma tick_retryCount_retry:
  "\<not> success_with_results pr \<Longrightarrow> retryCount (tick pr s) = retryCount s + 1"
  using tick_retryable [of pr s] by (auto simp: hpe_retryCount)

lemma tick_pollInterval: "pollInterval (tick pr s) = pollInterval s"
  by (auto simp: tick_def Let_def hpe_pollInterval split: probe.splits)

lemma tick_timers:
  "timers (tick pr s) =
     (if (success_with_results pr \<and> signals_completion pr) \<or>
         (\<not> success_with_results pr \<and> retryCount s + 1 \<ge> MAX_RETRIES)
      then clearInterval (pollInterval s) (timers s) else timers s)"
  by (auto simp: tick_def Let_def hpe_timers success_with_results_def signals_completion_def
           split: probe.splits)

lemma tick_spinner:
  "spinner (tick pr s) =
     (if (success_with_results pr \<and> signals_completion pr) \<or>
         (\<not> success_with_results pr \<and> retryCount s + 1 \<ge> MAX_RETRIES)
      then class_add ''hidden'' (spinner s) else spinner s)"
  by (auto simp: tick_def Let_def hpe_spinner success_with_results_def signals_completion_def
           split: probe.splits)

lemma cleared_inactive:
  "timers t = clearInterval (pollInterval s) (timers s) \<Longrightarrow> pollInterval t = pollInterval s \<Longrightarrow>
   \<not> session_active t"
  by (auto simp: session_active_def clearInterval_def split: option.splits)





lemma polling_page_eval:
  "polling_page =
     \<lparr>resultsContent = [el ''div'' status_classes [Text processing_message]], spinner = [],
      pollInterval = Some 1, retryCount = 0, timers = {1}, last_handle = 1,
      phases = \<lparr>researchPhase = fresh_phase, backtestPhase = fresh_phase,
                debugPhase = fresh_phase\<rparr>\<rparr>"
  by (simp add: polling_page_def submit_def submit_answer_def submit_reset_def startPolling_def
      loaded_page_def Let_def class_remove_def step_exec_def fresh_phase_def map_phases_def
      clearInterval_def)





section \<open>Timeouts and other transport errors\<close>

lemma blank_map_children:
  "(\<And>ks. map blank (f ks) = map blank (g ks)) \<Longrightarrow> blank (map_children f n) = blank (map_children g n)"
  by (cases n) simp_all

lemma blank_update_at:
  "map blank (update_at p (map_children (\<lambda>_. [Text a])) ns) =
   map blank (update_at p (map_children (\<lambda>_. [Text b])) ns)"
proof (induction p arbitrary: ns)
  case Nil
  show ?case by simp
next
  case (Cons i p)
  show ?case
  proof (cases p)
    case Nil
    then show ?thesis by (cases "ns ! i") (simp_all add: map_update)
  next
    case (Cons j q)
    have "blank (map_children (update_at p (map_children (\<lambda>_. [Text a]))) (ns ! i)) =
          blank (map_children (update_at p (map_children (\<lambda>_. [Text b]))) (ns ! i))"
      by (rule blank_map_children) (rule Cons.IH)
    with Cons show ?thesis by (simp add: map_update)
  qed
qed

lemma hpe_blank:
  "map blank (resultsContent (handlePollingError m1 s)) =
   map blank (resultsContent (handlePollingError m2 s))"
  by (simp add: handlePollingError_def showError_def Let_def set_innerHTML_def blank_update_at el_def
      split: option.splits)

lemma hpe_rest:
  "(handlePollingError m1 s)\<lparr>resultsContent := rc\<rparr> = (handlePollingError m2 s)\<lparr>resultsContent := rc\<rparr>"
  by (simp add: handlePollingError_def showError_def Let_def)

lemma tick_thrown: "\<exists>m. tick (Thrown e) s = handlePollingError m s"
  by (auto simp: tick_def)

lemma hpe_session_active:
  "retryCount s + 1 < MAX_RETRIES \<Longrightarrow>
   session_active (handlePollingError m s) = session_active s"
  by (simp add: session_active_def hpe_timers hpe_pollInterval split: option.splits)

text \<open>
  C9: a probe that times out or is aborted and a probe that throws any other error both
  add exactly 1 to the one retry counter. The pages they leave agree in every component
  but the rendered content, and the rendered contents agree up to the wording of their
  texts. Below the limit neither of them touches the interval or the spinner, so the
  session goes on; at the limit both leave the same page.
\<close>

theorem timeout_and_transport_error:
  "retryCount (tick (Thrown e1) s) = retryCount s + 1 \<and>
   retryCount (tick (Thrown e2) s) = retryCount s + 1 \<and>
   (tick (Thrown e1) s)\<lparr>resultsContent := rc\<rparr> = (tick (Thrown e2) s)\<lparr>resultsContent := rc\<rparr> \<and>
   map blank (resultsContent (tick (Thrown e1) s)) = map blank (resultsContent (tick (Thrown e2) s)) \<and>
   (retryCount s + 1 < MAX_RETRIES \<longrightarrow>
      timers (tick (Thrown e1) s) = timers s \<and> spinner (tick (Thrown e1) s) = spinner s \<and>
      session_active (tick (Thrown e1) s) = session_active s) \<and>
   (retryCount s + 1 \<ge> MAX_RETRIES \<longrightarrow> tick (Thrown e1) s = tick (Thrown e2) s)"
proof -
  obtain m1 where m1: "tick (Thrown e1) s = handlePollingError m1 s"
    using tick_thrown by blast
  obtain m2 where m2: "tick (Thrown e2) s = handlePollingError m2 s"
    using tick_thrown by blast
  have a: "retryCount s + 1 \<ge> MAX_RETRIES \<Longrightarrow> handlePollingError m1 s = handlePollingError m2 s"
    by (simp add: handlePollingError_def showError_def Let_def)
  show ?thesis
    unfolding m1 m2
    using a hpe_rest [where ?m1.0 = m1 and ?m2.0 = m2 and s = s and rc = rc]
      hpe_blank [where ?m1.0 = m1 and ?m2.0 = m2 and s = s]
    by (simp add: hpe_retryCount hpe_timers hpe_spinner hpe_session_active)
qed

theorem timeout_and_transport_error_witness:
  "retryCount polling_page + 1 < MAX_RETRIES \<and>
   session_active (tick (Thrown ''TimeoutError'') polling_page) \<and>
   retryCount (tick (Thrown ''TimeoutError'') polling_page) = 1 \<and>
   retryCount (tick (Thrown ''TypeError'') polling_page) = 1 \<and>
   retryCount ninth_retry_page + 1 \<ge> MAX_RETRIES \<and>
   tick (Thrown ''TimeoutError'') ninth_retry_page = tick (Thrown ''TypeError'') ninth_retry_page"
proof -
  have h1: "retryCount polling_page + 1 < MAX_RETRIES"
    by (simp add: polling_page_eval MAX_RETRIES_def)
  have h2: "session_active polling_page"
    by (simp add: polling_page_eval session_active_def)
  have h3: "retryCount ninth_retry_page + 1 \<ge> MAX_RETRIES"
    by (simp add: ninth_retry_page_def polling_page_eval MAX_RETRIES_def)
  have h4: "retryCount polling_page + 1 = 1"
    by (simp add: polling_page_eval)
  note t1 = timeout_and_transport_error [of "''TimeoutError''" polling_page "''TypeError''"]
  note t2 = timeout_and_transport_error [of "''TimeoutError''" ninth_retry_page "''TypeError''"]
  have c1: "session_active (tick (Thrown ''TimeoutError'') polling_page)"
    using t1 h1 h2 by blast
  have c2: "retryCount (tick (Thrown ''TimeoutError'') polling_page) = 1"
    using t1 h4 by metis
  have c3: "retryCount (tick (Thrown ''TypeError'') polling_page) = 1"
    using t1 h4 by metis
  have c4: "tick (Thrown ''TimeoutError'') ninth_retry_page =
            tick (Thrown ''TypeError'') ninth_retry_page"
    using t2 h3 by blast
  show ?thesis
    using h1 h3 c1 c2 c3 c4 by blast
qed

lemma hpe_exhausted:
  "retryCount s + 1 \<ge> MAX_RETRIES \<Longrightarrow> resultsContent (handlePollingError m s) = exhaustion_notice"
  by (simp add: handlePollingError_def showError_def Let_def exhaustion_notice_def)

section \<open>A submission that is not acknowledged\<close>

text \<open>
  C4, as the code has it: a submission whose request fails or whose answer is not a
  success acknowledgment starts no interval and no phase timeline. Whatever the page is
  when the answer arrives, no step is handed on, no handle is stored or issued, no timer
  is added and the phase elements stay as they were; the listener calls
  \<^verbatim>\<open>handlePollingError\<close>, which adds 1 to the retry counter as it stands then. While the
  counter stays below \<open>MAX_RETRIES\<close>, timers and spinner are left alone and the status
  line of that attempt is written into the first \<^verbatim>\<open>.text-purple-400\<close> element below
  \<^verbatim>\<open>resultsContent\<close>, or appended as a new status element: no error is rendered. When the
  counter reaches \<open>MAX_RETRIES\<close>, which takes ticks of an earlier session between reset
  and answer, the notice of exhaustion is rendered, the spinner hidden and the interval
  cleared. When nothing comes between reset and answer, the timers are unchanged, the
  counter stands at 1, the spinner stays visible and the page shows the status line of
  attempt 1 and nothing else.
\<close>

theorem failed_submit_status:
  "a \<noteq> Acknowledged ''success'' \<longrightarrow>
     snd (submit_answer a t) = [] \<and>
     fst (submit_answer a t) = handlePollingError ''Starting strategy processing...'' t \<and>
     pollInterval (fst (submit_answer a t)) = pollInterval t \<and>
     last_handle (fst (submit_answer a t)) = last_handle t \<and>
     timers (fst (submit_answer a t)) \<subseteq> timers t \<and>
     phases (fst (submit_answer a t)) = phases t \<and>
     retryCount (fst (submit_answer a t)) = retryCount t + 1 \<and>
     (retryCount t + 1 < MAX_RETRIES \<longrightarrow>
        timers (fst (submit_answer a t)) = timers t \<and>
        spinner (fst (submit_answer a t)) = spinner t \<and>
        resultsContent (fst (submit_answer a t)) =
          (case querySelector ''text-purple-400'' (resultsContent t) of
             Some p \<Rightarrow>
               set_innerHTML p
                 [Text (''Starting strategy processing... (Attempt '' @
                        string_of_nat (retryCount t + 1) @ ''/10)'')]
                 (resultsContent t)
           | None \<Rightarrow>
               resultsContent t @
               [Elem ''div'' None [''text-purple-400'', ''mt-4'', ''text-center''] []
                  [Text (''Starting strategy processing... (Attempt '' @
                         string_of_nat (retryCount t + 1) @ ''/10)'')]])) \<and>
     (retryCount t + 1 \<ge> MAX_RETRIES \<longrightarrow>
        timers (fst (submit_answer a t)) = clearInterval (pollInterval t) (timers t) \<and>
        \<not> session_active (fst (submit_answer a t)) \<and>
        ''hidden'' \<in> set (spinner (fst (submit_answer a t))) \<and>
        resultsContent (fst (submit_answer a t)) = exhaustion_notice) \<and>
     snd (submit a s) = [] \<and>
     pollInterval (fst (submit a s)) = pollInterval s \<and>
     timers (fst (submit a s)) = timers s \<and>
     phases (fst (submit a s)) = phases s \<and>
     retryCount (fst (submit a s)) = 1 \<and>
     spinner (fst (submit a s)) = class_remove ''hidden'' (spinner s) \<and>
     resultsContent (fst (submit a s)) =
       [Elem ''div'' None [''text-purple-400'', ''mt-4'', ''text-center''] []
          [Text ''Starting strategy processing... (Attempt 1/10)'']]"
proof
  assume a: "a \<noteq> Acknowledged ''success''"
  let ?t' = "fst (submit_answer a t)"
  have eq: "?t' = handlePollingError ''Starting strategy processing...'' t"
    using a by (simp add: submit_answer_def)
  have ten: "string_of_nat MAX_RETRIES = ''10''"
    by (simp add: MAX_RETRIES_def string_of_nat.simps)
  have 1: "snd (submit_answer a t) = [] \<and>
     pollInterval ?t' = pollInterval t \<and>
     last_handle ?t' = last_handle t \<and>
     timers ?t' \<subseteq> timers t \<and>
     phases ?t' = phases t \<and>
     retryCount ?t' = retryCount t + 1"
    using a
    by (auto simp: submit_answer_def hpe_pollInterval hpe_last_handle hpe_timers hpe_phases
        hpe_retryCount clearInterval_def split: option.splits)
  have 2: "timers ?t' = timers t \<and> spinner ?t' = spinner t \<and>
        resultsContent ?t' =
          (case querySelector ''text-purple-400'' (resultsContent t) of
             Some p \<Rightarrow>
               set_innerHTML p
                 [Text (''Starting strategy processing... (Attempt '' @
                        string_of_nat (retryCount t + 1) @ ''/10)'')]
                 (resultsContent t)
           | None \<Rightarrow>
               resultsContent t @
               [Elem ''div'' None [''text-purple-400'', ''mt-4'', ''text-center''] []
                  [Text (''Starting strategy processing... (Attempt '' @
                         string_of_nat (retryCount t + 1) @ ''/10)'')]])"
    if "retryCount t + 1 < MAX_RETRIES"
    using that unfolding eq
    by (simp add: handlePollingError_def Let_def ten el_def status_classes_def
        split: option.splits)
  have 3: "timers ?t' = clearInterval (pollInterval t) (timers t) \<and>
        \<not> session_active ?t' \<and> ''hidden'' \<in> set (spinner ?t') \<and>
        resultsContent ?t' = exhaustion_notice"
    if "retryCount t + 1 \<ge> MAX_RETRIES"
    using that cleared_inactive [of ?t' t] unfolding eq
    by (simp add: hpe_timers hpe_spinner hpe_pollInterval hpe_exhausted class_add_def)
  have 4: "snd (submit a s) = [] \<and>
     pollInterval (fst (submit a s)) = pollInterval s \<and>
     timers (fst (submit a s)) = timers s \<and>
     phases (fst (submit a s)) = phases s \<and>
     retryCount (fst (submit a s)) = 1 \<and>
     spinner (fst (submit a s)) = class_remove ''hidden'' (spinner s) \<and>
     resultsContent (fst (submit a s)) =
       [Elem ''div'' None [''text-purple-400'', ''mt-4'', ''text-center''] []
          [Text ''Starting strategy processing... (Attempt 1/10)'']]"
    using a
    by (simp add: submit_def submit_answer_def submit_reset_def handlePollingError_def Let_def
        MAX_RETRIES_def querySelector_def string_of_nat.simps el_def status_classes_def)
  show "snd (submit_answer a t) = [] \<and>
     fst (submit_answer a t) = handlePollingError ''Starting strategy processing...'' t \<and>
     pollInterval (fst (submit_answer a t)) = pollInterval t \<and>
     last_handle (fst (submit_answer a t)) = last_handle t \<and>
     timers (fst (submit_answer a t)) \<subseteq> timers t \<and>
     phases (fst (submit_answer a t)) = phases t \<and>
     retryCount (fst (submit_answer a t)) = retryCount t + 1 \<and>
     (retryCount t + 1 < MAX_RETRIES \<longrightarrow>
        timers (fst (submit_answer a t)) = timers t \<and>
        spinner (fst (submit_answer a t)) = spinner t \<and>
        resultsContent (fst (submit_answer a t)) =
          (case querySelector ''text-purple-400'' (resultsContent t) of
             Some p \<Rightarrow>
               set_innerHTML p
                 [Text (''Starting strategy processing... (Attempt '' @
                        string_of_nat (retryCount t + 1) @ ''/10)'')]
                 (resultsContent t)
           | None \<Rightarrow>
               resultsContent t @
               [Elem ''div'' None [''text-purple-400'', ''mt-4'', ''text-center''] []
                  [Text (''Starting strategy processing... (Attempt '' @
                         string_of_nat (retryCount t + 1) @ ''/10)'')]])) \<and>
     (retryCount t + 1 \<ge> MAX_RETRIES \<longrightarrow>
        timers (fst (submit_answer a t)) = clearInterval (pollInterval t) (timers t) \<and>
        \<not> session_active (fst (submit_answer a t)) \<and>
        ''hidden'' \<in> set (spinner (fst (submit_answer a t))) \<and>
        resultsContent (fst (submit_answer a t)) = exhaustion_notice) \<and>
     snd (submit a s) = [] \<and>
     pollInterval (fst (submit a s)) = pollInterval s \<and>
     timers (fst (submit a s)) = timers s \<and>
     phases (fst (submit a s)) = phases s \<and>
     retryCount (fst (submit a s)) = 1 \<and>
     spinner (fst (submit a s)) = class_remove ''hidden'' (spinner s) \<and>
     resultsContent (fst (submit a s)) =
       [Elem ''div'' None [''text-purple-400'', ''mt-4'', ''text-center''] []
          [Text ''Starting strategy processing... (Attempt 1/10)'']]"
    using eq 1 2 3 4 by blast
qed

theorem failed_submit_status_witness:
  "Not_ok \<noteq> Acknowledged ''success'' \<and>
   snd (submit Not_ok loaded_page) = [] \<and>
   timers (fst (submit Not_ok loaded_page)) = {} \<and>
   retryCount (fst (submit Not_ok loaded_page)) = 1 \<and>
   retryCount interleaved_page + 1 < MAX_RETRIES \<and>
   retryCount (fst (submit_answer Not_ok interleaved_page)) = 2 \<and>
   timers (fst (submit_answer Not_ok interleaved_page)) = {1} \<and>
   retryCount ninth_retry_page + 1 \<ge> MAX_RETRIES \<and>
   resultsContent (fst (submit_answer Not_ok ninth_retry_page)) = exhaustion_notice \<and>
   \<not> session_active (fst (submit_answer Not_ok ninth_retry_page))"
proof -
  have h: "Not_ok \<noteq> Acknowledged ''success''" by simp
  have l: "timers loaded_page = {}" by (simp add: loaded_page_def)
  have r: "retryCount interleaved_page = 1"
    unfolding interleaved_page_def
    by (simp add: tick_retryCount_retry success_with_results_def submit_reset_def
        polling_page_eval)
  have ti: "timers interleaved_page = {1}"
    unfolding interleaved_page_def
    by (simp add: tick_timers success_with_results_def submit_reset_def polling_page_eval
        MAX_RETRIES_def)
  have i: "retryCount interleaved_page + 1 < MAX_RETRIES"
    by (simp add: r MAX_RETRIES_def)
  have n: "retryCount ninth_retry_page + 1 \<ge> MAX_RETRIES"
    by (simp add: ninth_retry_page_def polling_page_eval MAX_RETRIES_def)
  note t1 = failed_submit_status [of Not_ok loaded_page loaded_page]
  note t2 = failed_submit_status [of Not_ok interleaved_page loaded_page]
  note t3 = failed_submit_status [of Not_ok ninth_retry_page loaded_page]
  have "snd (submit Not_ok loaded_page) = [] \<and>
        timers (fst (submit Not_ok loaded_page)) = timers loaded_page \<and>
        retryCount (fst (submit Not_ok loaded_page)) = 1"
    using t1 h by blast
  then have c1: "snd (submit Not_ok loaded_page) = [] \<and>
            timers (fst (submit Not_ok loaded_page)) = {} \<and>
            retryCount (fst (submit Not_ok loaded_page)) = 1"
    by (simp add: l)
  have "retryCount (fst (submit_answer Not_ok interleaved_page)) =
          retryCount interleaved_page + 1"
    using t2 h by blast
  moreover have "timers (fst (submit_answer Not_ok interleaved_page)) = timers interleaved_page"
    using t2 h i by blast
  ultimately have c2: "retryCount (fst (submit_answer Not_ok interleaved_page)) = 2 \<and>
            timers (fst (submit_answer Not_ok interleaved_page)) = {1}"
    by (simp add: r ti)
  have c3: "resultsContent (fst (submit_answer Not_ok ninth_retry_page)) = exhaustion_notice \<and>
            \<not> session_active (fst (submit_answer Not_ok ninth_retry_page))"
    using t3 h n by blast
  show ?thesis
    using h i n c1 c2 c3 by blast
qed

text \<open>
  C4 as stated fails: after a submission answered with a response that is not ok, on the
  page as loaded, the only thing rendered is the status line of attempt 1; there is no
  error box, and the spinner is not hidden.
\<close>

theorem failed_submit_no_error_shown:
  "resultsContent (fst (submit Not_ok loaded_page)) =
     [el ''div'' status_classes [Text ''Starting strategy processing... (Attempt 1/10)'']] \<and>
   querySelector ''text-red-700'' (resultsContent (fst (submit Not_ok loaded_page))) = None \<and>
   ''hidden'' \<notin> set (spinner (fst (submit Not_ok loaded_page)))"
  by (simp add: submit_def submit_answer_def submit_reset_def handlePollingError_def Let_def
      MAX_RETRIES_def querySelector_def string_of_nat.simps loaded_page_def class_remove_def
      el_def status_classes_def)

section \<open>The notice when the retries are used up\<close>

text \<open>
  C5, as the code has it: the tick that uses up the retries replaces the whole content
  of \<^verbatim>\<open>resultsContent\<close> by the one notice that \<^verbatim>\<open>showError\<close> renders (a red box with a
  cross and the text that processing is still running in the background). No result
  element is displayed any more; the spinner is hidden and the session cleared.
\<close>

theorem exhaustion_replaces_results:
  "\<not> success_with_results pr \<and> retryCount s + 1 \<ge> MAX_RETRIES \<longrightarrow>
     resultsContent (tick pr s) = exhaustion_notice \<and>
     getElementById x (resultsContent (tick pr s)) = None \<and>
     ''hidden'' \<in> set (spinner (tick pr s)) \<and>
     \<not> session_active (tick pr s)"
proof -
  have n: "getElementById x exhaustion_notice = None"
    by (simp add: getElementById_def exhaustion_notice_def el_def)
  show ?thesis
    using tick_retryable [of pr s] cleared_inactive [of "tick pr s" s] n
    by (auto simp: hpe_exhausted tick_spinner tick_timers tick_pollInterval class_add_def)
qed

theorem exhaustion_replaces_results_witness:
  "\<not> success_with_results (Thrown ''TimeoutError'') \<and>
   retryCount ninth_retry_page + 1 \<ge> MAX_RETRIES \<and>
   resultsContent (tick (Thrown ''TimeoutError'') ninth_retry_page) = exhaustion_notice \<and>
   \<not> session_active (tick (Thrown ''TimeoutError'') ninth_retry_page)"
proof -
  have h1: "\<not> success_with_results (Thrown ''TimeoutError'')"
    by (simp add: success_with_results_def)
  have h2: "retryCount ninth_retry_page + 1 \<ge> MAX_RETRIES"
    by (simp add: ninth_retry_page_def polling_page_eval MAX_RETRIES_def)
  show ?thesis
    using h1 h2 exhaustion_replaces_results [of "Thrown ''TimeoutError''" ninth_retry_page]
    by blast
qed

text \<open>
  C5 as stated fails: a result rendered by the first tick is displayed, and after ten
  timeouts it is gone.
\<close>

theorem exhaustion_removes_results:
  "getElementById ''strategy-1'' (resultsContent (ticks [results_probe] polling_page)) = Some [0] \<and>
   getElementById ''strategy-1''
     (resultsContent (ticks (results_probe # replicate 10 (Thrown ''TimeoutError'')) polling_page)) = None"
  by code_simp

section \<open>Status messages and rendered results\<close>

text \<open>
  C6 fails on the code. The status message is looked up as the first
  \<^verbatim>\<open>.text-purple-400\<close> element below \<^verbatim>\<open>resultsContent\<close>, and the download links of the
  success layout carry that class. After a tick has rendered a success entry, an empty
  answer writes its status line into the first download link of that entry, so the
  element's content is no longer the layout of the entry; and a results tick that does
  not bring the entry again removes that link.
\<close>

theorem status_message_overwrites_download_link:
  "children (resultsContent (ticks [results_probe] polling_page) ! 0) = success_layout example_result \<and>
   children (resultsContent (ticks [results_probe, Body ''success'' (Some []) False] polling_page) ! 0) \<noteq> success_layout example_result \<and>
   children (children (resultsContent (ticks [results_probe, Body ''success'' (Some []) False] polling_page) ! 0) ! 3) ! 0 =
     Elem ''a'' None
       [''inline-flex'', ''items-center'', ''space-x-2'', ''text-purple-400'', ''hover:text-purple-300'']
       [(''href'', ''/download/strategy/s1.txt'')]
       [Text ''Still processing your strategy... (Attempt 1/10)''] \<and>
   children (children (resultsContent (ticks [results_probe, Body ''success'' (Some [other_result]) False] polling_page) ! 0) ! 3) =
     [download_link ''/download/backtest/b1.py'' ''Download Backtest'']"
  by code_simp

section \<open>The result store\<close>

lemma shift_Nil_iff [simp]: "shift p = [] \<longleftrightarrow> p = []"
  by (cases p) simp_all

























section \<open>The error class of a result element\<close>











section \<open>The phase timeline\<close>

lemma get_set_phase: "get_phase q (set_phase p e ps) = (if q = p then e else get_phase q ps)"
  by (cases p; cases q) simp_all

lemma get_map_phases: "get_phase q (map_phases f ps) = f (get_phase q ps)"
  by (cases q) (simp_all add: map_phases_def)

lemma marked_up_iff:
  "marked_up ps \<longleftrightarrow> (\<forall>p. ''processing-phase'' \<in> set (phase_classes (get_phase p ps)))"
proof
  assume m: "marked_up ps"
  show "\<forall>p. ''processing-phase'' \<in> set (phase_classes (get_phase p ps))"
  proof
    fix p show "''processing-phase'' \<in> set (phase_classes (get_phase p ps))"
      using m by (cases p) (simp_all add: marked_up_def all_phases_def)
  qed
next
  assume "\<forall>p. ''processing-phase'' \<in> set (phase_classes (get_phase p ps))"
  then show "marked_up ps" by (simp add: marked_up_def all_phases_def)
qed

lemma updatePhase_active:
  "marked_up ps \<Longrightarrow> is_active (updatePhase p st ps) q \<longleftrightarrow> q = p"
  by (auto simp: marked_up_iff is_active_def updatePhase_def Let_def class_add_def class_remove_def
      get_set_phase get_map_phases)

lemma updatePhase_marked: "marked_up ps \<Longrightarrow> marked_up (updatePhase p st ps)"
  by (auto simp: marked_up_iff updatePhase_def Let_def class_add_def class_remove_def
      get_set_phase get_map_phases)

lemma active_phases_single: "(\<And>q. is_active ps q \<longleftrightarrow> q = p) \<Longrightarrow> active_phases ps = [p]"
  by (cases p) (simp_all add: active_phases_def all_phases_def)

lemma step_exec_marked: "marked_up ps \<Longrightarrow> marked_up (step_exec a ps)"
  by (cases a)
     (simp_all add: step_exec_def updatePhase_marked, simp_all add: marked_up_iff get_set_phase get_map_phases)

lemma active_phases_cong:
  assumes "\<And>q. phase_classes (get_phase q ps') = phase_classes (get_phase q ps)"
  shows "active_phases ps' = active_phases ps"
proof -
  have "is_active ps' = is_active ps"
    by (rule ext) (simp add: is_active_def assms)
  then show ?thesis by (simp add: active_phases_def)
qed

lemma step_exec_one_active:
  assumes "marked_up ps" and "length (active_phases ps) \<le> 1"
  shows "length (active_phases (step_exec a ps)) \<le> 1"
proof (cases a)
  case (MarkActive p)
  then show ?thesis
    using active_phases_single [of "updatePhase p ''active'' ps" p] assms(1)
    by (simp add: step_exec_def updatePhase_active)
next
  case (MarkComplete p)
  then show ?thesis
    using active_phases_single [of "updatePhase p ''complete'' ps" p] assms(1)
    by (simp add: step_exec_def updatePhase_active)
next
  case (ClearMessages p)
  have "active_phases (step_exec a ps) = active_phases ps"
    by (rule active_phases_cong) (simp add: ClearMessages step_exec_def get_set_phase)
  with assms(2) show ?thesis by simp
next
  case (AppendMessage p m)
  have "active_phases (step_exec a ps) = active_phases ps"
    by (rule active_phases_cong) (simp add: AppendMessage step_exec_def get_set_phase)
  with assms(2) show ?thesis by simp
next
  case ResetContainers
  have "active_phases (step_exec a ps) = active_phases ps"
    by (rule active_phases_cong) (simp add: ResetContainers step_exec_def get_map_phases)
  with assms(2) show ?thesis by simp
qed

lemma steps_exec_one_active:
  "marked_up ps \<Longrightarrow> length (active_phases ps) \<le> 1 \<Longrightarrow>
   length (active_phases (steps_exec as ps)) \<le> 1"
proof (induction as arbitrary: ps)
  case Nil
  then show ?case by (simp add: steps_exec_def)
next
  case (Cons a as)
  have "steps_exec (a # as) ps = steps_exec as (step_exec a ps)"
    by (simp add: steps_exec_def)
  moreover have "marked_up (step_exec a ps)"
    using Cons.prems(1) by (rule step_exec_marked)
  moreover have "length (active_phases (step_exec a ps)) \<le> 1"
    using Cons.prems by (rule step_exec_one_active)
  ultimately show ?case
    using Cons.IH [of "step_exec a ps"] by simp
qed

lemma timeline_eval: "activations timeline = [Research, Backtest, Debug] \<and> no_reactivation timeline"
  by (simp add: timeline_def processPhase_def researchMessages_def backtestMessages_def debugMessages_def)

lemma complete_keeps_active:
  "is_active (step_exec (MarkComplete p) ps) p \<and> is_complete (step_exec (MarkComplete p) ps) p"
  by (simp add: step_exec_def updatePhase_def Let_def is_active_def is_complete_def class_add_def
      get_set_phase)

text \<open>
  C7, as the code has it: the timeline marks the phases active in the order research,
  backtest, debug, and within one run no phase is marked active after it has been marked
  complete. Whatever steps of whatever runs are executed, on phase elements that carry
  \<^verbatim>\<open>processing-phase\<close> and of which at most one is active, at most one is active
  afterwards. But marking a phase complete adds the class \<^verbatim>\<open>active\<close> as well: a completed
  phase is active until the next one is marked.
\<close>

theorem phase_order_and_single_active:
  "activations timeline = [Research, Backtest, Debug] \<and>
   no_reactivation timeline \<and>
   (marked_up ps \<and> length (active_phases ps) \<le> 1 \<longrightarrow>
      length (active_phases (steps_exec as ps)) \<le> 1) \<and>
   is_active (step_exec (MarkComplete p) ps) p \<and>
   is_complete (step_exec (MarkComplete p) ps) p"
  using timeline_eval complete_keeps_active [of p ps] steps_exec_one_active [of ps as]
  by blast

theorem phase_order_and_single_active_witness:
  "marked_up (phases loaded_page) \<and>
   length (active_phases (phases loaded_page)) \<le> 1 \<and>
   length (active_phases (steps_exec timeline (phases loaded_page))) \<le> 1"
proof -
  have h: "marked_up (phases loaded_page) \<and> length (active_phases (phases loaded_page)) \<le> 1"
    by (simp add: loaded_page_def marked_up_def active_phases_def all_phases_def is_active_def
        fresh_phase_def)
  show ?thesis
    using h phase_order_and_single_active [of "phases loaded_page" timeline] by blast
qed

lemma set_set_phase: "set_phase p e (set_phase p e' ps) = set_phase p e ps"
  by (cases p) simp_all

lemma steps_exec_append: "steps_exec (as @ bs) ps = steps_exec bs (steps_exec as ps)"
  by (simp add: steps_exec_def)

lemma steps_exec_Cons: "steps_exec (a # as) ps = steps_exec as (step_exec a ps)"
  by (simp add: steps_exec_def)

lemma steps_exec_Nil: "steps_exec [] ps = ps"
  by (simp add: steps_exec_def)

lemma steps_exec_messages:
  "steps_exec (map (AppendMessage p) ms) ps =
     (if ms = [] then ps
      else set_phase p
        ((get_phase p ps)\<lparr>progress_messages :=
           progress_messages (get_phase p ps) @ map progress_message ms\<rparr>) ps)"
proof (induction ms arbitrary: ps)
  case Nil
  show ?case by (simp add: steps_exec_Nil)
next
  case (Cons m ms)
  show ?case
    by (simp add: steps_exec_Cons Cons.IH) (simp add: step_exec_def get_set_phase set_set_phase)
qed

lemma timeline_steps:
  "take 1 timeline = [MarkActive Research]"
  "take 2 timeline = [MarkActive Research, ClearMessages Research]"
  "take 4 timeline =
     [MarkActive Research, ClearMessages Research,
      AppendMessage Research (researchMessages ! 0), AppendMessage Research (researchMessages ! 1)]"
  "timeline ! 4 = AppendMessage Research (researchMessages ! 2)"
  by (simp_all add: timeline_def processPhase_def researchMessages_def)

lemma nonempty_messages: "researchMessages \<noteq> []" "backtestMessages \<noteq> []" "debugMessages \<noteq> []"
  by (simp_all add: researchMessages_def backtestMessages_def debugMessages_def)

lemma timeline_classes:
  "map (\<lambda>p. phase_classes (get_phase p (phases (run_steps timeline polling_page)))) all_phases =
     [[''processing-phase'', ''phase-complete''], [''processing-phase'', ''phase-complete''],
      [''processing-phase'', ''active'', ''phase-complete'']]"
  by (simp add: timeline_def processPhase_def steps_exec_append steps_exec_Cons steps_exec_Nil
      steps_exec_messages nonempty_messages run_steps_def polling_page_eval all_phases_def)
     (simp add: step_exec_def updatePhase_def Let_def map_phases_def class_add_def class_remove_def
      fresh_phase_def)

text \<open>
  C7 as stated fails: after a run of the timeline the research phase is complete and
  not active; a second submission hands out the timeline again, and its first step
  marks the research phase, still complete, active. And at the end of a run the debug
  phase is complete and active at once.
\<close>

theorem completed_phase_marked_active_again:
  "is_complete (phases (run_steps timeline polling_page)) Research \<and>
   \<not> is_active (phases (run_steps timeline polling_page)) Research \<and>
   snd (submit (Acknowledged ''success'') (run_steps timeline polling_page)) = timeline \<and>
   is_complete (phases (run_steps (take 1 timeline)
      (fst (submit (Acknowledged ''success'') (run_steps timeline polling_page))))) Research \<and>
   is_active (phases (run_steps (take 1 timeline)
      (fst (submit (Acknowledged ''success'') (run_steps timeline polling_page))))) Research \<and>
   is_complete (phases (run_steps timeline polling_page)) Debug \<and>
   is_active (phases (run_steps timeline polling_page)) Debug"
proof -
  have c: "phase_classes (get_phase Research (phases (run_steps timeline polling_page))) =
             [''processing-phase'', ''phase-complete'']"
          "phase_classes (get_phase Debug (phases (run_steps timeline polling_page))) =
             [''processing-phase'', ''active'', ''phase-complete'']"
    using timeline_classes by (simp_all add: all_phases_def)
  have s: "phases (fst (submit (Acknowledged ''success'') s)) =
           map_phases (\<lambda>e. e\<lparr>progress_messages := []\<rparr>) (phases s)" for s
    by (simp add: submit_def submit_answer_def submit_reset_def startPolling_def Let_def step_exec_def)
  have t: "snd (submit (Acknowledged ''success'') s) = timeline" for s
    by (simp add: submit_def submit_answer_def Let_def)
  have a: "phase_classes (get_phase Research (phases (run_steps (take 1 timeline)
      (fst (submit (Acknowledged ''success'') (run_steps timeline polling_page)))))) =
        [''processing-phase'', ''phase-complete'', ''active'']"
    unfolding timeline_steps using c
    by (simp add: run_steps_def s steps_exec_Cons steps_exec_Nil step_exec_def
        updatePhase_def Let_def map_phases_def class_add_def class_remove_def)
  show ?thesis
    using c a t by (simp add: is_complete_def is_active_def)
qed

section \<open>A run of the timeline that a new submission supersedes\<close>

text \<open>
  C8, as the code has it: every acknowledged submission hands out the whole timeline,
  whatever the state of the page, and empties the message containers; nothing cancels
  the steps of an earlier run. These steps address the containers of the page, not a
  copy of them: an append executed after the reset puts its message into the container
  that was just emptied, and in general behind whatever the container holds.
\<close>

theorem superseded_run_writes_live_containers:
  "snd (submit (Acknowledged ''success'') s) = timeline \<and>
   progress_messages (get_phase p (phases (fst (submit (Acknowledged ''success'') s)))) = [] \<and>
   progress_messages
     (get_phase p (phases (run_steps [AppendMessage p m] (fst (submit (Acknowledged ''success'') s))))) =
     [progress_message m] \<and>
   progress_messages (get_phase p (steps_exec [AppendMessage p m] ps)) =
     progress_messages (get_phase p ps) @ [progress_message m]"
  by (simp add: submit_def submit_answer_def submit_reset_def startPolling_def Let_def
      run_steps_def steps_exec_def step_exec_def get_set_phase get_map_phases)

text \<open>
  C8 as stated fails: a first run has shown two research messages when a second
  submission resets the containers and starts its own research phase; the first run's
  pending step then appends its third message to the research container, which was
  empty.
\<close>

theorem stale_append_after_reset:
  "progress_messages
     (get_phase Research (phases (run_steps (take 2 timeline)
        (fst (submit (Acknowledged ''success'') (run_steps (take 4 timeline) polling_page))))))
      = [] \<and>
   timeline ! 4 = AppendMessage Research (researchMessages ! 2) \<and>
   progress_messages
     (get_phase Research (phases (run_steps [timeline ! 4] (run_steps (take 2 timeline)
        (fst (submit (Acknowledged ''success'') (run_steps (take 4 timeline) polling_page)))))))
      = [progress_message (researchMessages ! 2)]"
  unfolding timeline_steps
  by (simp add: run_steps_def submit_def submit_answer_def submit_reset_def
      startPolling_def Let_def steps_exec_Cons steps_exec_Nil step_exec_def updatePhase_def
      map_phases_def)

end
